theory Spec2Isabelle
  imports Main "HOL-Library.Word"
begin

section \<open>The committee consensus operator (packages/consensus/action.go)\<close>

text \<open>
  A shallow embedding of the leader side of the consensus operator of wasp:
  \<^verbatim>\<open>takeAction\<close>, \<open>doSubordinate\<close>, \<open>doLeader\<close>, \<open>requestBalancesFromNode\<close>,
  \<open>startProcessing\<close>, \<open>checkQuorum\<close> and \<open>setNewState\<close>.

  The operator is a Go struct that the methods mutate in place; here every method takes the
  operator and returns the operator it leaves behind, the list of the calls it made to the
  outside (logger, node connection, peers, goroutines), and how it ended: a normal return or a
  panic. A panic keeps the operator as it was when the panic was raised.
\<close>

subsection \<open>Data\<close>

type_synonym bytes = "8 word list"
type_synonym hashValue = bytes
type_synonym requestId = bytes
type_synonym address = bytes
type_synonym requestRef = bytes
type_synonym balances = "(bytes \<times> nat) list"

text \<open>Readings of \<open>time.Now()\<close> and durations, in nanoseconds.\<close>

type_synonym time = int

definition getBalancesTimeout :: int where
  "getBalancesTimeout = 1000000000"

text \<open>
  The packages \<open>sctransaction\<close>, \<open>state\<close> and \<open>committee\<close> are not among the sources. Of a
  transaction the operator uses its ID, the state index of its state block and whatever the
  aggregation of signature shares attaches; of a variable state only its state index. State
  indices are \<open>uint32\<close> and committee sizes, peer indices and the quorum are \<open>uint16\<close> in
  those packages (the source converts with \<open>int(op.quorum())\<close> before comparing with a length).
\<close>

record sctransaction =
  ID :: hashValue
  txStateIndex :: "32 word"
  signature :: "bytes option"

record variableState =
  StateIndex :: "32 word"

text \<open>
  A \<open>*request\<close> is shared by \<open>op.requests\<close>, the leader status and the computation requests.
  The methods below write only the notification vectors, through \<open>op.requests\<close>, and read only
  \<open>reqMsg\<close> and the id through the other references, so a reference is modelled by the value
  it points to.
\<close>

record request =
  reqId :: requestId
  reqMsg :: "requestRef option"
  notificationsCurrentState :: "bool list"
  notificationsNextState :: "bool list"

record computationRequest =
  req :: request
  processed :: bool

record signedResult =
  essenceHash :: hashValue
  sigShare :: bytes

record leaderStatus =
  reqs :: "request list"
  batchHash :: hashValue
  ts :: int
  signedResults :: "signedResult option list"
  resultTx :: "sctransaction option"
  finalized :: bool

record operator =
  stateTx :: "sctransaction option"
  variableState :: "variableState option"
  balances :: "balances option"
  getBalancesDeadline :: time
  leaderStatus :: "leaderStatus option"
  requests :: "request list"
  currentStateCompRequests :: "computationRequest list"
  nextStateCompRequests :: "computationRequest list"

text \<open>The message \<open>committee.StartProcessingReqMsg\<close>: state index, reward address, balances, request ids.\<close>

datatype startProcessingReqMsg =
  StartProcessingReqMsg "32 word" address balances "requestId list"

text \<open>
  The calls a method makes to the outside, in the order it makes them. A log entry keeps the
  level and the format string of the call.
\<close>

datatype effect =
    LogDebug string
  | LogError string
  | LogInfo string
  | RequestBalancesFromNode address
  | SendMsgToPeers startProcessingReqMsg
  | GoProcessRequest "requestRef list" int balances address "16 word"
  | PostTransactionToNodeAsyncWithRetry sctransaction int int

datatype 'a outcome = Return 'a | Panic string

type_synonym 'a run = "operator \<times> effect list \<times> 'a outcome"

text \<open>
  What the operator gets from code that is not among the sources, for one call: the committee
  (\<open>Size\<close>, \<open>OwnPeerIndex\<close>, \<open>Address\<close>, the result \<open>(numSucc, ts)\<close> of \<open>SendMsgToPeers\<close>),
  the operator's own helpers \<open>iAmCurrentLeader\<close>, \<open>selectRequestsToProcess\<close>, \<open>quorum\<close>,
  \<open>peerIndex\<close>, the registry's reward address, \<open>sctransaction.BatchHash\<close>, the transaction's
  \<open>SignaturesValid\<close>, and the readings of \<open>time.Now()\<close> in the order the call takes them.
\<close>

text \<open>
  Modelled from the spec: \<open>aggregateSigShares\<close> is not among the sources. Section 4.3, step 4:
  "Aggregate the collected shares into a full threshold signature over mainHash, attach it to
  resultTx". It is the field \<open>aggregateSigShares\<close> of the environment: from the shares and the
  result transaction it gives an error or the transaction with the signature attached, and it
  writes nothing else of the operator.
\<close>

record environment =
  iAmCurrentLeader :: "operator \<Rightarrow> bool"
  selectRequestsToProcess :: "operator \<Rightarrow> request list"
  quorum :: "16 word"
  committeeSize :: "16 word"
  ownPeerIndex :: "16 word"
  peerIndex :: "16 word"
  committeeAddress :: address
  getRewardAddress :: "address \<Rightarrow> address"
  sendMsgToPeers :: "startProcessingReqMsg \<Rightarrow> 16 word \<times> int"
  BatchHash :: "requestId list \<Rightarrow> hashValue"
  aggregateSigShares :: "bytes list \<Rightarrow> sctransaction \<Rightarrow> string + sctransaction"
  SignaturesValid :: "sctransaction \<Rightarrow> bool"
  now1 :: time
  now2 :: time

subsection \<open>checkQuorum\<close>

text \<open>
  The loop of \<open>checkQuorum\<close> over \<open>signedResults\<close>: \<open>None\<close> is the nil pointer dereference of
  reading \<open>essenceHash\<close> through a nil slot.
\<close>

fun collectSigShares :: "hashValue \<Rightarrow> bytes list \<Rightarrow> signedResult option list \<Rightarrow> bytes list option" where
  "collectSigShares mainHash sigShares [] = Some sigShares"
| "collectSigShares mainHash sigShares (None # rs) = None"
| "collectSigShares mainHash sigShares (Some r # rs) =
     (if essenceHash r = mainHash
      then collectSigShares mainHash (sigShares @ [sigShare r]) rs
      else collectSigShares mainHash sigShares rs)"

definition checkQuorum :: "environment \<Rightarrow> operator \<Rightarrow> bool run" where
  "checkQuorum env op =
     (let log0 = [LogDebug ''checkQuorum''] in
      case leaderStatus op of
        None \<Rightarrow> (op, log0, Return False)
      | Some ls \<Rightarrow>
         (case resultTx ls of
            None \<Rightarrow> (op, log0, Return False)
          | Some tx \<Rightarrow>
             if finalized ls then (op, log0, Return False)
             else if length (signedResults ls) \<le> unat (ownPeerIndex env)
             then (op, log0, Panic ''index out of range'')
             else
              (case signedResults ls ! unat (ownPeerIndex env) of
                 None \<Rightarrow> (op, log0, Panic ''nil pointer dereference'')
               | Some own \<Rightarrow>
                  (case collectSigShares (essenceHash own) [] (signedResults ls) of
                     None \<Rightarrow> (op, log0, Panic ''nil pointer dereference'')
                   | Some sigShares \<Rightarrow>
                      if length sigShares < unat (quorum env) then (op, log0, Return False)
                      else
                       (case aggregateSigShares env sigShares tx of
                          Inl err \<Rightarrow>
                            (op, log0 @ [LogError ''aggregateSigShares returned: %v''], Return False)
                        | Inr tx' \<Rightarrow>
                           (let op' = op\<lparr>leaderStatus := Some (ls\<lparr>resultTx := Some tx'\<rparr>)\<rparr> in
                            if SignaturesValid env tx' then
                              (op',
                               log0 @ [LogInfo ''FINALIZED RESULT. Posting transaction to the Value Tangle. txid = %s'',
                                       PostTransactionToNodeAsyncWithRetry tx' 2000000000 7000000000],
                               Return True)
                            else
                              (op',
                               log0 @ [LogError ''something went wrong while finalizing result transaction: %v''],
                               Return False)))))))"

subsection \<open>requestBalancesFromNode and startProcessing\<close>

text \<open>
  \<open>time.Now()\<close> is read twice: \<open>now1\<close> is compared with the deadline (\<open>After\<close> is strict),
  \<open>now2\<close> sets the new deadline.
\<close>

definition requestBalancesFromNode :: "environment \<Rightarrow> operator \<Rightarrow> unit run" where
  "requestBalancesFromNode env op =
     (if balances op = None \<and> getBalancesDeadline op < now1 env
      then (op\<lparr>getBalancesDeadline := now2 env + getBalancesTimeout\<rparr>,
            [RequestBalancesFromNode (committeeAddress env)], Return ())
      else (op, [], Return ()))"

text \<open>
  Modelled from the spec: \<open>takeIds\<close> and \<open>takeMsgs\<close> are not among the sources. The broadcast
  carries "the ordered request-ID list" of the selected requests (section 4.1), and
  \<open>takeMsgs\<close> fails exactly when "request messages that should have been present are nil"
  (section 7; the source panics with "some req messages are nil" when it reports not ok).
  \<open>None\<close> is the result \<open>(_, false)\<close>.
\<close>

definition takeIds :: "request list \<Rightarrow> requestId list" where
  "takeIds rs = map reqId rs"

fun takeMsgs :: "request list \<Rightarrow> requestRef list option" where
  "takeMsgs [] = Some []"
| "takeMsgs (r # rs) =
     (case reqMsg r of
        None \<Rightarrow> None
      | Some m \<Rightarrow> (case takeMsgs rs of None \<Rightarrow> None | Some ms \<Rightarrow> Some (m # ms)))"

definition startProcessing :: "environment \<Rightarrow> operator \<Rightarrow> unit run" where
  "startProcessing env op =
     (case balances op of
        None \<Rightarrow> (op, [], Return ())
      | Some bals \<Rightarrow>
         (case leaderStatus op of
            Some ls \<Rightarrow> (op, [], Return ())
          | None \<Rightarrow>
             (let selected = selectRequestsToProcess env op;
                  reqIds = takeIds selected
              in if length selected = 0
                 then (op, [LogDebug ''can't select request to process''], Return ())
                 else
                  (case stateTx op of
                     None \<Rightarrow> (op, [], Panic ''nil pointer dereference'')
                   | Some stx \<Rightarrow>
                      (let log1 = [LogDebug ''requests selected to process''];
                           msgData = StartProcessingReqMsg (txStateIndex stx)
                                       (getRewardAddress env (committeeAddress env)) bals reqIds;
                           sent = sendMsgToPeers env msgData;
                           numSucc = fst sent;
                           t = snd sent;
                           log2 = log1 @ [SendMsgToPeers msgData,
                                          LogDebug ''%d 'msgStartProcessingRequest' messages sent to peers'']
                       in if numSucc < quorum env - 1
                          then (op,
                                log2 @ [LogError ''only %d 'msgStartProcessingRequest' sends succeeded''],
                                Return ())
                          else
                           (case takeMsgs selected of
                              None \<Rightarrow> (op, log2, Panic ''some req messages are nil'')
                            | Some reqMsgs \<Rightarrow>
                               (op\<lparr>leaderStatus := Some
                                    \<lparr> reqs = selected,
                                      batchHash = BatchHash env reqIds,
                                      ts = t,
                                      signedResults = replicate (unat (committeeSize env)) None,
                                      resultTx = None,
                                      finalized = False \<rparr>\<rparr>,
                                log2 @ [LogDebug ''msgStartProcessingRequest successfully sent to %d peers'',
                                        GoProcessRequest reqMsgs t bals
                                          (getRewardAddress env (committeeAddress env))
                                          (ownPeerIndex env)],
                                Return ())))))))"

subsection \<open>doSubordinate, doLeader, takeAction\<close>

definition markProcessed :: "computationRequest \<Rightarrow> computationRequest" where
  "markProcessed cr =
     (if processed cr then cr
      else if reqMsg (req cr) = None then cr
      else cr\<lparr>processed := True\<rparr>)"

definition doSubordinate :: "operator \<Rightarrow> operator" where
  "doSubordinate op =
     op\<lparr>currentStateCompRequests := map markProcessed (currentStateCompRequests op)\<rparr>"

definition doLeader :: "environment \<Rightarrow> operator \<Rightarrow> unit run" where
  "doLeader env op =
     (case (if iAmCurrentLeader env op
            then (if balances op = None
                  then requestBalancesFromNode env op
                  else startProcessing env op)
            else (op, [], Return ())) of
        (op1, es1, Panic msg) \<Rightarrow> (op1, es1, Panic msg)
      | (op1, es1, Return u) \<Rightarrow>
         (case checkQuorum env op1 of
            (op2, es2, Panic msg) \<Rightarrow> (op2, es1 @ es2, Panic msg)
          | (op2, es2, Return b) \<Rightarrow> (op2, es1 @ es2, Return ())))"

definition takeAction :: "environment \<Rightarrow> operator \<Rightarrow> unit run" where
  "takeAction env op =
     (case doLeader env op of
        (op1, es1, Panic msg) \<Rightarrow> (op1, es1, Panic msg)
      | (op1, es1, Return u) \<Rightarrow> (doSubordinate op1, es1, Return ()))"

text \<open>
  The order of the tick as section 2 of the specification words it: subordinate bookkeeping,
  then the leader role, then the quorum check. It is compared with \<open>takeAction\<close> below.
\<close>

definition takeAction_spec_order :: "environment \<Rightarrow> operator \<Rightarrow> unit run" where
  "takeAction_spec_order env op =
     (let op0 = doSubordinate op in
      case (if iAmCurrentLeader env op0
            then (if balances op0 = None
                  then requestBalancesFromNode env op0
                  else startProcessing env op0)
            else (op0, [], Return ())) of
        (op1, es1, Panic msg) \<Rightarrow> (op1, es1, Panic msg)
      | (op1, es1, Return u) \<Rightarrow>
         (case checkQuorum env op1 of
            (op2, es2, Panic msg) \<Rightarrow> (op2, es1 @ es2, Panic msg)
          | (op2, es2, Return b) \<Rightarrow> (op2, es1 @ es2, Return ())))"

subsection \<open>setNewState\<close>

text \<open>
  Modelled from the spec: \<open>setAllFalse\<close> and \<open>resetLeader\<close> are not among the sources. Section
  4.4: the vectors are "zeroed", and the reset of the leader round is to "discard any
  in-flight LeaderStatus".
\<close>

definition setAllFalse :: "bool list \<Rightarrow> bool list" where
  "setAllFalse bs = replicate (length bs) False"

definition resetLeader :: "bytes \<Rightarrow> operator \<Rightarrow> operator" where
  "resetLeader seed op = op\<lparr>leaderStatus := None\<rparr>"

text \<open>
  The body of the loop over \<open>op.requests\<close>, for one request. The two vectors of a request are
  separate slices. \<open>None\<close> is the panic of writing slot \<open>op.peerIndex()\<close> of a shorter vector.
\<close>

definition rotateNotifications :: "bool \<Rightarrow> nat \<Rightarrow> request \<Rightarrow> request option" where
  "rotateNotifications nextStateTransition own r =
     (if nextStateTransition then
        (let r1 = r\<lparr>notificationsNextState := notificationsCurrentState r,
                    notificationsCurrentState := notificationsNextState r\<rparr>;
             r2 = r1\<lparr>notificationsNextState := setAllFalse (notificationsNextState r1)\<rparr>
         in case reqMsg r2 of
              None \<Rightarrow> Some r2
            | Some m \<Rightarrow>
               if own < length (notificationsNextState r2)
               then (if own < length (notificationsCurrentState r2)
                     then Some (r2\<lparr>notificationsNextState := (notificationsNextState r2)[own := True],
                                   notificationsCurrentState := (notificationsCurrentState r2)[own := True]\<rparr>)
                     else None)
               else None)
      else Some (r\<lparr>notificationsNextState := setAllFalse (notificationsNextState r),
                    notificationsCurrentState := setAllFalse (notificationsCurrentState r)\<rparr>))"

fun rotateAll :: "bool \<Rightarrow> nat \<Rightarrow> request list \<Rightarrow> request list option" where
  "rotateAll nextStateTransition own [] = Some []"
| "rotateAll nextStateTransition own (r # rs) =
     (case rotateNotifications nextStateTransition own r of
        None \<Rightarrow> None
      | Some r' \<Rightarrow>
         (case rotateAll nextStateTransition own rs of
            None \<Rightarrow> None
          | Some rs' \<Rightarrow> Some (r' # rs')))"

text \<open>
  \<open>setNewState\<close> is called with a transaction and a variable state (neither nil). The
  operator a panic inside the loop leaves behind depends on the order in which Go ranges over
  \<open>op.requests\<close>, and is not part of the result.
\<close>

definition setNewState :: "environment \<Rightarrow> sctransaction \<Rightarrow> variableState \<Rightarrow> operator \<Rightarrow> operator outcome" where
  "setNewState env newTx newState op =
     (let op1 = op\<lparr>stateTx := Some newTx, balances := None, getBalancesDeadline := now1 env\<rparr>;
          nextStateTransition =
            (case variableState op1 of
               None \<Rightarrow> False
             | Some old \<Rightarrow> StateIndex newState = StateIndex old + 1);
          op2 = op1\<lparr>variableState := Some newState\<rparr>;
          op3 = resetLeader (ID newTx) op2;
          op4 = op3\<lparr>currentStateCompRequests := nextStateCompRequests op3,
                    nextStateCompRequests := []\<rparr>
      in case rotateAll nextStateTransition (unat (peerIndex env)) (requests op4) of
           None \<Rightarrow> Panic ''index out of range''
         | Some rs \<Rightarrow> Return (op4\<lparr>requests := rs\<rparr>))"

subsection \<open>Reading the calls of a tick\<close>

text \<open>The launch of the execution task, \<open>go op.processRequest(...)\<close>, among the calls.\<close>

fun isProcessRequest :: "effect \<Rightarrow> bool" where
  "isProcessRequest (GoProcessRequest ms t b a i) = True"
| "isProcessRequest e = False"

text \<open>The message that \<open>startProcessing\<close> builds from the selection and broadcasts.\<close>

definition proposal :: "environment \<Rightarrow> operator \<Rightarrow> sctransaction \<Rightarrow> balances \<Rightarrow> startProcessingReqMsg" where
  "proposal env op stx bals =
     StartProcessingReqMsg (txStateIndex stx) (getRewardAddress env (committeeAddress env)) bals
       (takeIds (selectRequestsToProcess env op))"

subsection \<open>A committee of four with quorum three\<close>

definition env4 :: environment where
  "env4 = \<lparr> iAmCurrentLeader = (\<lambda>op. True),
            selectRequestsToProcess = requests,
            quorum = 3, committeeSize = 4, ownPeerIndex = 0, peerIndex = 0,
            committeeAddress = [7],
            getRewardAddress = (\<lambda>a. a),
            sendMsgToPeers = (\<lambda>m. (3, 100)),
            BatchHash = concat,
            aggregateSigShares = (\<lambda>shares tx. Inr (tx\<lparr>signature := Some (concat shares)\<rparr>)),
            SignaturesValid = (\<lambda>tx. signature tx = Some [1, 2, 3]),
            now1 = 5000000000, now2 = 5000000001 \<rparr>"

definition tx10 :: sctransaction where
  "tx10 = \<lparr> ID = [10], txStateIndex = 10, signature = None \<rparr>"

definition tx11 :: sctransaction where
  "tx11 = \<lparr> ID = [11], txStateIndex = 11, signature = None \<rparr>"

definition reqR1 :: request where
  "reqR1 = \<lparr> reqId = [1], reqMsg = Some [101],
             notificationsCurrentState = [True, False, False, False],
             notificationsNextState = [True, True, False, False] \<rparr>"

definition reqR2 :: request where
  "reqR2 = \<lparr> reqId = [2], reqMsg = None,
             notificationsCurrentState = [False, True, False, False],
             notificationsNextState = [False, False, True, False] \<rparr>"

definition opIdle :: operator where
  "opIdle = \<lparr> stateTx = Some tx10, variableState = Some \<lparr> StateIndex = 10 \<rparr>,
              balances = Some [([0], 100)], getBalancesDeadline = 0, leaderStatus = None,
              requests = [reqR1],
              currentStateCompRequests = [\<lparr> req = reqR1, processed = False \<rparr>],
              nextStateCompRequests = [] \<rparr>"

definition lsRound :: "signedResult option list \<Rightarrow> leaderStatus" where
  "lsRound slots = \<lparr> reqs = [reqR1], batchHash = [1], ts = 100, signedResults = slots,
                     resultTx = Some tx11, finalized = False \<rparr>"

definition share :: "8 word \<Rightarrow> 8 word \<Rightarrow> signedResult option" where
  "share h s = Some \<lparr> essenceHash = [h], sigShare = [s] \<rparr>"

text \<open>A round in which two peers have answered and two slots are still nil.\<close>

definition opWaiting :: operator where
  "opWaiting = opIdle\<lparr>leaderStatus := Some (lsRound [share 1 1, share 1 2, None, None])\<rparr>"

text \<open>
  The scenario of section 8: three peers, the leader among them, report the essence hash
  \<open>[1]\<close>, the fourth reports \<open>[2]\<close>.
\<close>

definition opQuorum :: operator where
  "opQuorum = opIdle\<lparr>leaderStatus := Some (lsRound [share 1 1, share 1 2, share 1 3, share 2 9])\<rparr>"

definition opPosted :: operator where
  "opPosted = opIdle\<lparr>leaderStatus := Some
      ((lsRound [share 1 1, share 1 2, share 1 3, share 2 9])
         \<lparr>resultTx := Some (tx11\<lparr>signature := Some [1, 2, 3]\<rparr>)\<rparr>)\<rparr>"

text \<open>The same committee on a tick where the broadcast reaches one other peer only.\<close>

definition env4reach1 :: environment where
  "env4reach1 = env4\<lparr>sendMsgToPeers := (\<lambda>m. (1, 100))\<rparr>"

text \<open>An operator with two requests, the second of which has no message yet.\<close>

definition opTwoRequests :: operator where
  "opTwoRequests = opIdle\<lparr>requests := [reqR1, reqR2]\<rparr>"

text \<open>Later ticks of the same committee: one within a second of the first, one after it.\<close>

definition env4soon :: environment where
  "env4soon = env4\<lparr>now1 := 5500000000, now2 := 5500000001\<rparr>"

definition env4late :: environment where
  "env4late = env4\<lparr>now1 := 7000000000, now2 := 7000000002\<rparr>"

definition opNoBalances :: operator where
  "opNoBalances = opIdle\<lparr>balances := None\<rparr>"

text \<open>A state transaction five states ahead, and the operators that \<open>setNewState\<close> leaves.\<close>

definition tx15 :: sctransaction where
  "tx15 = \<lparr> ID = [15], txStateIndex = 15, signature = None \<rparr>"

definition opAfterJump :: operator where
  "opAfterJump =
     \<lparr> stateTx = Some tx15, variableState = Some \<lparr> StateIndex = 15 \<rparr>,
       balances = None, getBalancesDeadline = 5000000000, leaderStatus = None,
       requests = [\<lparr> reqId = [1], reqMsg = Some [101],
                     notificationsCurrentState = [False, False, False, False],
                     notificationsNextState = [False, False, False, False] \<rparr>,
                   \<lparr> reqId = [2], reqMsg = None,
                     notificationsCurrentState = [False, False, False, False],
                     notificationsNextState = [False, False, False, False] \<rparr>],
       currentStateCompRequests = [], nextStateCompRequests = [] \<rparr>"

definition opAfterNext :: operator where
  "opAfterNext =
     \<lparr> stateTx = Some tx11, variableState = Some \<lparr> StateIndex = 11 \<rparr>,
       balances = None, getBalancesDeadline = 5000000000, leaderStatus = None,
       requests = [\<lparr> reqId = [1], reqMsg = Some [101],
                     notificationsCurrentState = [True, True, False, False],
                     notificationsNextState = [True, False, False, False] \<rparr>,
                   \<lparr> reqId = [2], reqMsg = None,
                     notificationsCurrentState = [False, False, True, False],
                     notificationsNextState = [False, False, False, False] \<rparr>],
       currentStateCompRequests = [], nextStateCompRequests = [] \<rparr>"

lemmas example_defs = env4_def opIdle_def lsRound_def share_def tx10_def tx11_def reqR1_def reqR2_def

subsection \<open>The guard of checkQuorum\<close>

text \<open>
  C9. Whenever the operator has no leader status, or the leader status has no result
  transaction, or the round is finalized, \<open>checkQuorum\<close> returns false at once: the operator
  is unchanged, the only call made is the debug log entry at the head of the method, and the
  signature slots are not read (the statement holds whatever they contain, nil slots included).
\<close>

theorem checkQuorum_guard_returns_false:
  assumes "leaderStatus op = None
           \<or> (\<exists>ls. leaderStatus op = Some ls \<and> (resultTx ls = None \<or> finalized ls))"
  shows "checkQuorum env op = (op, [LogDebug ''checkQuorum''], Return False)"
  using assms by (auto simp: checkQuorum_def Let_def split: option.splits)

theorem checkQuorum_guard_returns_false_witness:
  "(leaderStatus (opIdle\<lparr>leaderStatus := Some ((lsRound [None, None, None, None])\<lparr>finalized := True\<rparr>)\<rparr>) = None
    \<or> (\<exists>ls. leaderStatus (opIdle\<lparr>leaderStatus := Some ((lsRound [None, None, None, None])\<lparr>finalized := True\<rparr>)\<rparr>) = Some ls
            \<and> (resultTx ls = None \<or> finalized ls)))
   \<and> checkQuorum env4 (opIdle\<lparr>leaderStatus := Some ((lsRound [None, None, None, None])\<lparr>finalized := True\<rparr>)\<rparr>)
     = (opIdle\<lparr>leaderStatus := Some ((lsRound [None, None, None, None])\<lparr>finalized := True\<rparr>)\<rparr>,
        [LogDebug ''checkQuorum''], Return False)"
proof -
  let ?op = "opIdle\<lparr>leaderStatus := Some ((lsRound [None, None, None, None])\<lparr>finalized := True\<rparr>)\<rparr>"
  have h: "leaderStatus ?op = None
           \<or> (\<exists>ls. leaderStatus ?op = Some ls \<and> (resultTx ls = None \<or> finalized ls))"
    by simp
  show ?thesis using h checkQuorum_guard_returns_false [OF h, of env4] by simp
qed

subsection \<open>The signature slots\<close>

lemma collectSigShares_None_iff:
  "collectSigShares h acc rs = None \<longleftrightarrow> None \<in> set rs"
  by (induction h acc rs rule: collectSigShares.induct) auto

lemma collectSigShares_Some:
  "None \<notin> set rs \<Longrightarrow>
   collectSigShares h acc rs = Some (acc @ map sigShare (filter (\<lambda>r. essenceHash r = h) (map the rs)))"
  by (induction h acc rs rule: collectSigShares.induct) auto

lemma nil_slot_iff: "None \<in> set rs \<longleftrightarrow> (\<exists>i<length rs. rs ! i = None)"
  by (metis in_set_conv_nth)

lemma startProcessing_allocates_nil_slots:
  "leaderStatus op = None \<Longrightarrow> leaderStatus (fst (startProcessing env op)) = Some ls \<Longrightarrow>
   signedResults ls = replicate (unat (committeeSize env)) None"
  by (auto simp: startProcessing_def Let_def split: option.splits if_splits)

lemma checkQuorum_outcome_by_slots:
  assumes "leaderStatus op = Some ls" and "resultTx ls = Some tx" and "\<not> finalized ls"
    and "unat (ownPeerIndex env) < length (signedResults ls)"
  shows "(snd (snd (checkQuorum env op)) = Panic ''nil pointer dereference''
           \<longleftrightarrow> (\<exists>i<length (signedResults ls). signedResults ls ! i = None))
       \<and> ((\<exists>b. snd (snd (checkQuorum env op)) = Return b)
           \<longleftrightarrow> (\<forall>i<length (signedResults ls). signedResults ls ! i \<noteq> None))"
proof (cases "None \<in> set (signedResults ls)")
  case True
  then have c: "collectSigShares h [] (signedResults ls) = None" for h
    by (simp add: collectSigShares_None_iff)
  have "snd (snd (checkQuorum env op)) = Panic ''nil pointer dereference''"
    using assms c by (simp add: checkQuorum_def Let_def split: option.splits)
  with True show ?thesis by (auto simp: nil_slot_iff)
next
  case False
  then have own: "signedResults ls ! unat (ownPeerIndex env) \<noteq> None"
    using assms(4) by (metis nth_mem)
  have c: "collectSigShares h [] (signedResults ls)
             = Some (map sigShare (filter (\<lambda>r. essenceHash r = h) (map the (signedResults ls))))" for h
    using False by (simp add: collectSigShares_Some)
  have "\<exists>b. snd (snd (checkQuorum env op)) = Return b"
    using assms own
    by (auto simp: checkQuorum_def Let_def c split: option.splits sum.splits)
  with False show ?thesis by (auto simp: nil_slot_iff)
qed

text \<open>
  C4. Past its guard (leader status present, result transaction set, round not finalized, own
  index inside the slice), \<open>checkQuorum\<close> reads \<open>essenceHash\<close> through every slot of
  \<open>signedResults\<close> with no nil check: it ends in a nil pointer panic exactly when some slot is
  nil, and it returns exactly when every slot is populated. The slice that \<open>startProcessing\<close>
  allocates for a new leader status has \<open>committee.Size()\<close> slots, all nil.
\<close>

theorem checkQuorum_returns_iff_every_slot_populated:
  assumes "leaderStatus op = Some ls" and "resultTx ls = Some tx" and "\<not> finalized ls"
    and "unat (ownPeerIndex env) < length (signedResults ls)"
  shows "(snd (snd (checkQuorum env op)) = Panic ''nil pointer dereference''
           \<longleftrightarrow> (\<exists>i<length (signedResults ls). signedResults ls ! i = None))
       \<and> ((\<exists>b. snd (snd (checkQuorum env op)) = Return b)
           \<longleftrightarrow> (\<forall>i<length (signedResults ls). signedResults ls ! i \<noteq> None))
       \<and> (\<forall>env' op0 ls0.
             leaderStatus op0 = None \<and> leaderStatus (fst (startProcessing env' op0)) = Some ls0
             \<longrightarrow> signedResults ls0 = replicate (unat (committeeSize env')) None)"
  using checkQuorum_outcome_by_slots [OF assms] startProcessing_allocates_nil_slots
  by blast

theorem checkQuorum_returns_iff_every_slot_populated_witness:
  "leaderStatus opWaiting = Some (lsRound [share 1 1, share 1 2, None, None])
   \<and> resultTx (lsRound [share 1 1, share 1 2, None, None]) = Some tx11
   \<and> \<not> finalized (lsRound [share 1 1, share 1 2, None, None])
   \<and> unat (ownPeerIndex env4) < length (signedResults (lsRound [share 1 1, share 1 2, None, None]))
   \<and> snd (snd (checkQuorum env4 opWaiting)) = Panic ''nil pointer dereference''
   \<and> (\<exists>i<length (signedResults (lsRound [share 1 1, share 1 2, None, None])).
         signedResults (lsRound [share 1 1, share 1 2, None, None]) ! i = None)
   \<and> map_option signedResults (leaderStatus (fst (startProcessing env4 opIdle)))
       = Some [None, None, None, None]"
proof -
  let ?ls = "lsRound [share 1 1, share 1 2, None, None]"
  have h1: "leaderStatus opWaiting = Some ?ls" by (simp add: opWaiting_def)
  have h2: "resultTx ?ls = Some tx11" by (simp add: lsRound_def)
  have h3: "\<not> finalized ?ls" by (simp add: lsRound_def)
  have h4: "unat (ownPeerIndex env4) < length (signedResults ?ls)" by (simp add: lsRound_def env4_def)
  have ex: "\<exists>i<length (signedResults ?ls). signedResults ?ls ! i = None"
    by (rule exI [of _ 2]) (simp add: lsRound_def)
  from checkQuorum_returns_iff_every_slot_populated [OF h1 h2 h3 h4] ex
  have p: "snd (snd (checkQuorum env4 opWaiting)) = Panic ''nil pointer dereference''" by blast
  have r: "replicate 4 x = [x, x, x, x]" for x :: "signedResult option"
    by (simp add: numeral_eq_Suc)
  have a: "map_option signedResults (leaderStatus (fst (startProcessing env4 opIdle)))
             = Some [None, None, None, None]"
    by (simp add: startProcessing_def takeIds_def example_defs Let_def r)
  from h1 h2 h3 h4 ex p a show ?thesis by blast
qed

subsection \<open>Collecting the matching shares\<close>

text \<open>
  When every slot is populated, the shares handed to the aggregation are those of the slots
  whose essence hash equals the hash of the node's own slot, in slot order, and fewer than
  \<open>quorum()\<close> of them make \<open>checkQuorum\<close> return false with the operator unchanged.
\<close>

lemma checkQuorum_collects_matching:
  assumes "leaderStatus op = Some ls" and "resultTx ls = Some tx" and "\<not> finalized ls"
    and "unat (ownPeerIndex env) < length (signedResults ls)"
    and "None \<notin> set (signedResults ls)"
    and "signedResults ls ! unat (ownPeerIndex env) = Some own"
  shows "collectSigShares (essenceHash own) [] (signedResults ls)
           = Some (map sigShare (filter (\<lambda>r. essenceHash r = essenceHash own) (map the (signedResults ls))))"
    and "length (filter (\<lambda>r. essenceHash r = essenceHash own) (map the (signedResults ls))) < unat (quorum env)
         \<Longrightarrow> checkQuorum env op = (op, [LogDebug ''checkQuorum''], Return False)"
  using assms by (auto simp: checkQuorum_def Let_def collectSigShares_Some split: option.splits)

text \<open>
  C3. In a round of the committee of four (quorum three) where two peers have answered with
  the same essence hash and two slots are still nil, two shares match, fewer than the quorum:
  the claim has \<open>checkQuorum\<close> return false, the code ends in a nil pointer panic while it
  walks the slots.
\<close>

theorem checkQuorum_waiting_round_panics:
  "checkQuorum env4 opWaiting = (opWaiting, [LogDebug ''checkQuorum''], Panic ''nil pointer dereference'')"
  by (simp add: checkQuorum_def opWaiting_def example_defs)

subsection \<open>The finalized flag\<close>

lemma checkQuorum_keeps_finalized:
  "leaderStatus op = Some ls \<Longrightarrow>
   \<exists>ls'. leaderStatus (fst (checkQuorum env op)) = Some ls' \<and> finalized ls' = finalized ls"
  by (auto simp: checkQuorum_def Let_def split: option.splits sum.splits)

text \<open>
  C1. In the scenario of section 8 the three matching shares are aggregated, the signature
  verifies, and \<open>checkQuorum\<close> posts the transaction and returns true; the round's
  \<open>finalized\<close> flag is still false afterwards, and the next call of \<open>checkQuorum\<close> on the
  round passes the guard, aggregates again, posts the transaction a second time and returns
  true again.
\<close>

theorem checkQuorum_success_leaves_round_open:
  "checkQuorum env4 opQuorum =
     (opPosted,
      [LogDebug ''checkQuorum'',
       LogInfo ''FINALIZED RESULT. Posting transaction to the Value Tangle. txid = %s'',
       PostTransactionToNodeAsyncWithRetry (tx11\<lparr>signature := Some [1, 2, 3]\<rparr>) 2000000000 7000000000],
      Return True)
   \<and> map_option finalized (leaderStatus opPosted) = Some False
   \<and> checkQuorum env4 opPosted =
     (opPosted,
      [LogDebug ''checkQuorum'',
       LogInfo ''FINALIZED RESULT. Posting transaction to the Value Tangle. txid = %s'',
       PostTransactionToNodeAsyncWithRetry (tx11\<lparr>signature := Some [1, 2, 3]\<rparr>) 2000000000 7000000000],
      Return True)"
  by (simp add: checkQuorum_def opQuorum_def opPosted_def example_defs)

subsection \<open>startProcessing\<close>

lemma takeMsgs_None_iff: "takeMsgs rs = None \<longleftrightarrow> (\<exists>r\<in>set rs. reqMsg r = None)"
  by (induction rs) (auto split: option.splits)

text \<open>
  C6. On a leader tick that reaches the broadcast (balances known, no round in flight, a
  non-empty selection) and on which fewer than \<open>quorum()-1\<close> sends succeed (the comparison
  of the source, on \<open>uint16\<close>), \<open>startProcessing\<close> returns with the operator unchanged: no
  leader status is created and no execution task is launched. The operator it leaves is the
  one it found, so on the next tick \<open>startProcessing\<close> selects again and broadcasts the new
  selection.
\<close>

theorem startProcessing_insufficient_sends_aborts:
  assumes "balances op = Some bals" and "leaderStatus op = None"
    and "selectRequestsToProcess env op \<noteq> []" and "stateTx op = Some stx"
    and "fst (sendMsgToPeers env (proposal env op stx bals)) < quorum env - 1"
  shows "startProcessing env op =
           (op,
            [LogDebug ''requests selected to process'',
             SendMsgToPeers (proposal env op stx bals),
             LogDebug ''%d 'msgStartProcessingRequest' messages sent to peers'',
             LogError ''only %d 'msgStartProcessingRequest' sends succeeded''],
            Return ())
       \<and> leaderStatus (fst (startProcessing env op)) = None
       \<and> filter isProcessRequest (fst (snd (startProcessing env op))) = []
       \<and> (\<forall>env'. selectRequestsToProcess env' (fst (startProcessing env op)) \<noteq> []
             \<longrightarrow> SendMsgToPeers (proposal env' op stx bals)
                   \<in> set (fst (snd (startProcessing env' (fst (startProcessing env op))))))"
proof -
  have 1: "startProcessing env op =
           (op,
            [LogDebug ''requests selected to process'',
             SendMsgToPeers (proposal env op stx bals),
             LogDebug ''%d 'msgStartProcessingRequest' messages sent to peers'',
             LogError ''only %d 'msgStartProcessingRequest' sends succeeded''],
            Return ())"
    using assms by (simp add: startProcessing_def proposal_def Let_def)
  have 2: "SendMsgToPeers (proposal env' op stx bals) \<in> set (fst (snd (startProcessing env' op)))"
    if "selectRequestsToProcess env' op \<noteq> []" for env'
    using assms(1,2,4) that
    by (simp add: startProcessing_def proposal_def Let_def split: option.splits)
  show ?thesis using 1 2 assms(2) by simp
qed

theorem startProcessing_insufficient_sends_aborts_witness:
  "balances opIdle = Some [([0], 100)] \<and> leaderStatus opIdle = None
   \<and> selectRequestsToProcess env4reach1 opIdle \<noteq> [] \<and> stateTx opIdle = Some tx10
   \<and> fst (sendMsgToPeers env4reach1 (proposal env4reach1 opIdle tx10 [([0], 100)])) < quorum env4reach1 - 1
   \<and> startProcessing env4reach1 opIdle =
           (opIdle,
            [LogDebug ''requests selected to process'',
             SendMsgToPeers (StartProcessingReqMsg 10 [7] [([0], 100)] [[1]]),
             LogDebug ''%d 'msgStartProcessingRequest' messages sent to peers'',
             LogError ''only %d 'msgStartProcessingRequest' sends succeeded''],
            Return ())
   \<and> leaderStatus (fst (startProcessing env4reach1 opIdle)) = None
   \<and> filter isProcessRequest (fst (snd (startProcessing env4reach1 opIdle))) = []
   \<and> SendMsgToPeers (StartProcessingReqMsg 10 [7] [([0], 100)] [[1]])
        \<in> set (fst (snd (startProcessing env4 (fst (startProcessing env4reach1 opIdle)))))"
proof -
  have h1: "balances opIdle = Some [([0], 100)]" by (simp add: opIdle_def)
  have h2: "leaderStatus opIdle = None" by (simp add: opIdle_def)
  have h3: "selectRequestsToProcess env4reach1 opIdle \<noteq> []"
    by (simp add: env4reach1_def env4_def opIdle_def)
  have h4: "stateTx opIdle = Some tx10" by (simp add: opIdle_def)
  have h5: "fst (sendMsgToPeers env4reach1 (proposal env4reach1 opIdle tx10 [([0], 100)])) < quorum env4reach1 - 1"
    by (simp add: env4reach1_def env4_def)
  have p: "proposal env4reach1 opIdle tx10 [([0], 100)] = StartProcessingReqMsg 10 [7] [([0], 100)] [[1]]"
    by (simp add: proposal_def takeIds_def env4reach1_def example_defs)
  have p': "proposal env4 opIdle tx10 [([0], 100)] = StartProcessingReqMsg 10 [7] [([0], 100)] [[1]]"
    by (simp add: proposal_def takeIds_def example_defs)
  have h6: "selectRequestsToProcess env4 opIdle \<noteq> []"
    by (simp add: env4_def opIdle_def)
  note t = startProcessing_insufficient_sends_aborts [OF h1 h2 h3 h4 h5]
  from t have a: "startProcessing env4reach1 opIdle =
           (opIdle,
            [LogDebug ''requests selected to process'',
             SendMsgToPeers (StartProcessingReqMsg 10 [7] [([0], 100)] [[1]]),
             LogDebug ''%d 'msgStartProcessingRequest' messages sent to peers'',
             LogError ''only %d 'msgStartProcessingRequest' sends succeeded''],
            Return ())"
    by (simp add: p)
  from t have b: "leaderStatus (fst (startProcessing env4reach1 opIdle)) = None" by blast
  from t have c: "filter isProcessRequest (fst (snd (startProcessing env4reach1 opIdle))) = []" by blast
  from t have "selectRequestsToProcess env4 (fst (startProcessing env4reach1 opIdle)) \<noteq> []
             \<longrightarrow> SendMsgToPeers (proposal env4 opIdle tx10 [([0], 100)])
                   \<in> set (fst (snd (startProcessing env4 (fst (startProcessing env4reach1 opIdle)))))"
    by blast
  with h6 a have d: "SendMsgToPeers (StartProcessingReqMsg 10 [7] [([0], 100)] [[1]])
        \<in> set (fst (snd (startProcessing env4 (fst (startProcessing env4reach1 opIdle)))))"
    by (simp add: p')
  from h1 h2 h3 h4 h5 a b c d show ?thesis by blast
qed

text \<open>
  C2 as the claim states it fails: with a selected request whose message is nil and three
  sends succeeding in the committee of four, \<open>startProcessing\<close> has already broadcast the
  message when it finds the nil message, and it panics; the panic leaves \<open>takeAction\<close> too.
\<close>

theorem startProcessing_nil_message_counterexample:
  "startProcessing env4 opTwoRequests =
     (opTwoRequests,
      [LogDebug ''requests selected to process'',
       SendMsgToPeers (StartProcessingReqMsg 10 [7] [([0], 100)] [[1], [2]]),
       LogDebug ''%d 'msgStartProcessingRequest' messages sent to peers''],
      Panic ''some req messages are nil'')
   \<and> snd (snd (takeAction env4 opTwoRequests)) = Panic ''some req messages are nil''"
  by (simp add: startProcessing_def takeAction_def doLeader_def opTwoRequests_def takeIds_def example_defs Let_def)

text \<open>
  C2, amended. On a leader tick that reaches the broadcast, on which some selected request
  has no message and at least \<open>quorum()-1\<close> sends succeed, \<open>startProcessing\<close> panics with
  "some req messages are nil": no leader status is created (the operator is unchanged) and
  no execution task is launched, and when the node is the current leader the panic leaves
  \<open>takeAction\<close> as well.
\<close>

theorem startProcessing_nil_message_panics:
  assumes "balances op = Some bals" and "leaderStatus op = None" and "stateTx op = Some stx"
    and "\<exists>r\<in>set (selectRequestsToProcess env op). reqMsg r = None"
    and "\<not> fst (sendMsgToPeers env (proposal env op stx bals)) < quorum env - 1"
  shows "snd (snd (startProcessing env op)) = Panic ''some req messages are nil''
       \<and> fst (startProcessing env op) = op
       \<and> filter isProcessRequest (fst (snd (startProcessing env op))) = []
       \<and> (iAmCurrentLeader env op \<longrightarrow>
            snd (snd (takeAction env op)) = Panic ''some req messages are nil''
          \<and> fst (takeAction env op) = op)"
proof -
  from assms(4) have t: "takeMsgs (selectRequestsToProcess env op) = None"
    by (simp add: takeMsgs_None_iff)
  from assms(4) have ne: "selectRequestsToProcess env op \<noteq> []" by auto
  have sp: "snd (snd (startProcessing env op)) = Panic ''some req messages are nil''
       \<and> fst (startProcessing env op) = op
       \<and> filter isProcessRequest (fst (snd (startProcessing env op))) = []"
    using assms(1,2,3,5) t ne
    by (simp add: startProcessing_def proposal_def Let_def)
  obtain op1 es1 r1 where e: "startProcessing env op = (op1, es1, r1)"
    by (cases "startProcessing env op") auto
  with sp have "r1 = Panic ''some req messages are nil''" and "op1 = op" by simp_all
  with e assms(1) have "iAmCurrentLeader env op \<longrightarrow>
            snd (snd (takeAction env op)) = Panic ''some req messages are nil''
          \<and> fst (takeAction env op) = op"
    by (simp add: takeAction_def doLeader_def)
  with sp show ?thesis by blast
qed

theorem startProcessing_nil_message_panics_witness:
  "balances opTwoRequests = Some [([0], 100)] \<and> leaderStatus opTwoRequests = None
   \<and> stateTx opTwoRequests = Some tx10
   \<and> (\<exists>r\<in>set (selectRequestsToProcess env4 opTwoRequests). reqMsg r = None)
   \<and> \<not> fst (sendMsgToPeers env4 (proposal env4 opTwoRequests tx10 [([0], 100)])) < quorum env4 - 1
   \<and> iAmCurrentLeader env4 opTwoRequests
   \<and> snd (snd (startProcessing env4 opTwoRequests)) = Panic ''some req messages are nil''
   \<and> fst (startProcessing env4 opTwoRequests) = opTwoRequests
   \<and> filter isProcessRequest (fst (snd (startProcessing env4 opTwoRequests))) = []
   \<and> snd (snd (takeAction env4 opTwoRequests)) = Panic ''some req messages are nil''
   \<and> fst (takeAction env4 opTwoRequests) = opTwoRequests"
proof -
  have h1: "balances opTwoRequests = Some [([0], 100)]" by (simp add: opTwoRequests_def opIdle_def)
  have h2: "leaderStatus opTwoRequests = None" by (simp add: opTwoRequests_def opIdle_def)
  have h3: "stateTx opTwoRequests = Some tx10" by (simp add: opTwoRequests_def opIdle_def)
  have h4: "\<exists>r\<in>set (selectRequestsToProcess env4 opTwoRequests). reqMsg r = None"
    by (simp add: opTwoRequests_def opIdle_def env4_def reqR1_def reqR2_def)
  have h5: "\<not> fst (sendMsgToPeers env4 (proposal env4 opTwoRequests tx10 [([0], 100)])) < quorum env4 - 1"
    by (simp add: env4_def)
  have h6: "iAmCurrentLeader env4 opTwoRequests" by (simp add: env4_def)
  from startProcessing_nil_message_panics [OF h1 h2 h3 h4 h5] h1 h2 h3 h4 h5 h6
  show ?thesis by blast
qed

text \<open>
  C10. On each path of \<open>startProcessing\<close> that returns without creating a leader status
  (balances nil, a round in flight, an empty selection, fewer than \<open>quorum()-1\<close> successful
  sends) the operator is returned unchanged and no execution task is launched; on the path of
  insufficient sends the broadcast is among the calls already made.
\<close>

theorem startProcessing_paths_without_leader_status:
  assumes "balances op = None
           \<or> (\<exists>ls. leaderStatus op = Some ls)
           \<or> selectRequestsToProcess env op = []
           \<or> (\<exists>bals stx. balances op = Some bals \<and> stateTx op = Some stx
                \<and> fst (sendMsgToPeers env (proposal env op stx bals)) < quorum env - 1)"
  shows "fst (startProcessing env op) = op
       \<and> snd (snd (startProcessing env op)) = Return ()
       \<and> filter isProcessRequest (fst (snd (startProcessing env op))) = []
       \<and> (\<forall>bals stx. balances op = Some bals \<and> leaderStatus op = None
             \<and> selectRequestsToProcess env op \<noteq> [] \<and> stateTx op = Some stx
             \<and> fst (sendMsgToPeers env (proposal env op stx bals)) < quorum env - 1
           \<longrightarrow> SendMsgToPeers (proposal env op stx bals) \<in> set (fst (snd (startProcessing env op))))"
  using assms
  by (auto simp: startProcessing_def proposal_def Let_def split: option.splits)

theorem startProcessing_paths_without_leader_status_witness:
  "(balances opIdle = None
     \<or> (\<exists>ls. leaderStatus opIdle = Some ls)
     \<or> selectRequestsToProcess env4reach1 opIdle = []
     \<or> (\<exists>bals stx. balances opIdle = Some bals \<and> stateTx opIdle = Some stx
          \<and> fst (sendMsgToPeers env4reach1 (proposal env4reach1 opIdle stx bals)) < quorum env4reach1 - 1))
   \<and> fst (startProcessing env4reach1 opIdle) = opIdle
   \<and> snd (snd (startProcessing env4reach1 opIdle)) = Return ()
   \<and> filter isProcessRequest (fst (snd (startProcessing env4reach1 opIdle))) = []
   \<and> SendMsgToPeers (StartProcessingReqMsg 10 [7] [([0], 100)] [[1]])
        \<in> set (fst (snd (startProcessing env4reach1 opIdle)))"
proof -
  have h1: "balances opIdle = Some [([0], 100)]" by (simp add: opIdle_def)
  have h2: "leaderStatus opIdle = None" by (simp add: opIdle_def)
  have h3: "selectRequestsToProcess env4reach1 opIdle \<noteq> []"
    by (simp add: env4reach1_def env4_def opIdle_def)
  have h4: "stateTx opIdle = Some tx10" by (simp add: opIdle_def)
  have h5: "fst (sendMsgToPeers env4reach1 (proposal env4reach1 opIdle tx10 [([0], 100)])) < quorum env4reach1 - 1"
    by (simp add: env4reach1_def env4_def)
  have p: "proposal env4reach1 opIdle tx10 [([0], 100)] = StartProcessingReqMsg 10 [7] [([0], 100)] [[1]]"
    by (simp add: proposal_def takeIds_def env4reach1_def example_defs)
  have h: "balances opIdle = None
     \<or> (\<exists>ls. leaderStatus opIdle = Some ls)
     \<or> selectRequestsToProcess env4reach1 opIdle = []
     \<or> (\<exists>bals stx. balances opIdle = Some bals \<and> stateTx opIdle = Some stx
          \<and> fst (sendMsgToPeers env4reach1 (proposal env4reach1 opIdle stx bals)) < quorum env4reach1 - 1)"
    using h1 h4 h5 by blast
  note t = startProcessing_paths_without_leader_status [OF h]
  from t h1 h2 h3 h4 h5
  have "SendMsgToPeers (proposal env4reach1 opIdle tx10 [([0], 100)])
          \<in> set (fst (snd (startProcessing env4reach1 opIdle)))"
    by blast
  then have s: "SendMsgToPeers (StartProcessingReqMsg 10 [7] [([0], 100)] [[1]])
        \<in> set (fst (snd (startProcessing env4reach1 opIdle)))"
    by (simp add: p)
  from t h s show ?thesis by blast
qed

subsection \<open>requestBalancesFromNode\<close>

text \<open>
  C8. \<open>requestBalancesFromNode\<close> issues a fetch exactly when the balances are nil and the
  time read is past \<open>getBalancesDeadline\<close>, and an issue sets the deadline to the time read
  after it plus the timeout. So of two consecutive calls with the balances unknown, the first
  of which fetches: when the second reads a time not past the new deadline the two calls
  issue one fetch, and when it reads a time past it they issue two.
\<close>

theorem requestBalancesFromNode_throttles:
  "requestBalancesFromNode env op =
     (if balances op = None \<and> getBalancesDeadline op < now1 env
      then (op\<lparr>getBalancesDeadline := now2 env + getBalancesTimeout\<rparr>,
            [RequestBalancesFromNode (committeeAddress env)], Return ())
      else (op, [], Return ()))
   \<and> (balances op = None \<and> getBalancesDeadline op < now1 env \<longrightarrow>
        (now1 env' \<le> now2 env + getBalancesTimeout \<longrightarrow>
           fst (snd (requestBalancesFromNode env op))
             @ fst (snd (requestBalancesFromNode env' (fst (requestBalancesFromNode env op))))
           = [RequestBalancesFromNode (committeeAddress env)])
      \<and> (now2 env + getBalancesTimeout < now1 env' \<longrightarrow>
           fst (snd (requestBalancesFromNode env op))
             @ fst (snd (requestBalancesFromNode env' (fst (requestBalancesFromNode env op))))
           = [RequestBalancesFromNode (committeeAddress env), RequestBalancesFromNode (committeeAddress env')]
         \<and> getBalancesDeadline (fst (requestBalancesFromNode env' (fst (requestBalancesFromNode env op))))
           = now2 env' + getBalancesTimeout))"
  by (simp add: requestBalancesFromNode_def)

theorem requestBalancesFromNode_throttles_witness:
  "balances opNoBalances = None \<and> getBalancesDeadline opNoBalances < now1 env4
   \<and> now1 env4soon \<le> now2 env4 + getBalancesTimeout
   \<and> now2 env4 + getBalancesTimeout < now1 env4late
   \<and> fst (snd (requestBalancesFromNode env4 opNoBalances))
        @ fst (snd (requestBalancesFromNode env4soon (fst (requestBalancesFromNode env4 opNoBalances))))
      = [RequestBalancesFromNode [7]]
   \<and> fst (snd (requestBalancesFromNode env4 opNoBalances))
        @ fst (snd (requestBalancesFromNode env4late (fst (requestBalancesFromNode env4 opNoBalances))))
      = [RequestBalancesFromNode [7], RequestBalancesFromNode [7]]
   \<and> getBalancesDeadline (fst (requestBalancesFromNode env4late (fst (requestBalancesFromNode env4 opNoBalances))))
      = 8000000002"
proof -
  have h1: "balances opNoBalances = None" by (simp add: opNoBalances_def)
  have h2: "getBalancesDeadline opNoBalances < now1 env4"
    by (simp add: opNoBalances_def opIdle_def env4_def)
  have h3: "now1 env4soon \<le> now2 env4 + getBalancesTimeout"
    by (simp add: env4soon_def env4_def getBalancesTimeout_def)
  have h4: "now2 env4 + getBalancesTimeout < now1 env4late"
    by (simp add: env4late_def env4_def getBalancesTimeout_def)
  have a: "committeeAddress env4 = [7]" "committeeAddress env4late = [7]"
          "now2 env4late + getBalancesTimeout = 8000000002"
    by (simp_all add: env4_def env4late_def getBalancesTimeout_def)
  from requestBalancesFromNode_throttles [of env4 opNoBalances env4soon, THEN conjunct2] h1 h2 h3
  have "fst (snd (requestBalancesFromNode env4 opNoBalances))
        @ fst (snd (requestBalancesFromNode env4soon (fst (requestBalancesFromNode env4 opNoBalances))))
      = [RequestBalancesFromNode (committeeAddress env4)]"
    by blast
  then have s: "fst (snd (requestBalancesFromNode env4 opNoBalances))
        @ fst (snd (requestBalancesFromNode env4soon (fst (requestBalancesFromNode env4 opNoBalances))))
      = [RequestBalancesFromNode [7]]"
    by (simp only: a)
  from requestBalancesFromNode_throttles [of env4 opNoBalances env4late, THEN conjunct2] h1 h2 h4
  have "fst (snd (requestBalancesFromNode env4 opNoBalances))
        @ fst (snd (requestBalancesFromNode env4late (fst (requestBalancesFromNode env4 opNoBalances))))
      = [RequestBalancesFromNode (committeeAddress env4), RequestBalancesFromNode (committeeAddress env4late)]
      \<and> getBalancesDeadline (fst (requestBalancesFromNode env4late (fst (requestBalancesFromNode env4 opNoBalances))))
      = now2 env4late + getBalancesTimeout"
    by blast
  then have l: "fst (snd (requestBalancesFromNode env4 opNoBalances))
        @ fst (snd (requestBalancesFromNode env4late (fst (requestBalancesFromNode env4 opNoBalances))))
      = [RequestBalancesFromNode [7], RequestBalancesFromNode [7]]
      \<and> getBalancesDeadline (fst (requestBalancesFromNode env4late (fst (requestBalancesFromNode env4 opNoBalances))))
      = 8000000002"
    by (simp only: a)
  from h1 h2 h3 h4 s l show ?thesis by blast
qed

subsection \<open>The order of a tick\<close>

lemma requestBalancesFromNode_compRequests:
  "currentStateCompRequests (fst (requestBalancesFromNode env op)) = currentStateCompRequests op"
  by (simp add: requestBalancesFromNode_def)

lemma startProcessing_compRequests:
  "currentStateCompRequests (fst (startProcessing env op)) = currentStateCompRequests op"
  by (simp add: startProcessing_def Let_def split: option.splits)

lemma checkQuorum_compRequests:
  "currentStateCompRequests (fst (checkQuorum env op)) = currentStateCompRequests op"
  by (simp add: checkQuorum_def Let_def split: option.splits sum.splits)

lemma doLeader_compRequests:
  "currentStateCompRequests (fst (doLeader env op)) = currentStateCompRequests op"
proof -
  let ?role = "if iAmCurrentLeader env op
            then (if balances op = None
                  then requestBalancesFromNode env op
                  else startProcessing env op)
            else (op, [], Return ())"
  have r: "currentStateCompRequests (fst ?role) = currentStateCompRequests op"
    by (simp add: requestBalancesFromNode_compRequests startProcessing_compRequests)
  obtain op1 es1 r1 where role: "?role = (op1, es1, r1)" by (cases ?role) auto
  with r have c1: "currentStateCompRequests op1 = currentStateCompRequests op" by simp
  obtain op2 es2 r2 where q: "checkQuorum env op1 = (op2, es2, r2)" by (cases "checkQuorum env op1") auto
  with checkQuorum_compRequests [of env op1] have c2: "currentStateCompRequests op2 = currentStateCompRequests op1" by simp
  show ?thesis
    unfolding doLeader_def role using q c1 c2
    by (cases r1; cases r2) simp_all
qed

text \<open>
  C5 as the claim states it fails. On a tick where the quorum check panics (a round with nil
  slots), \<open>takeAction\<close> leaves the computation request unmarked: the subordinate bookkeeping
  had not run when the quorum check did. In the order the claim gives, the request would be
  marked before the leader role and the quorum check run.
\<close>

theorem takeAction_order_counterexample:
  "takeAction env4 opWaiting \<noteq> takeAction_spec_order env4 opWaiting
   \<and> snd (snd (takeAction env4 opWaiting)) = Panic ''nil pointer dereference''
   \<and> map processed (currentStateCompRequests (fst (takeAction env4 opWaiting))) = [False]
   \<and> snd (snd (takeAction_spec_order env4 opWaiting)) = Panic ''nil pointer dereference''
   \<and> map processed (currentStateCompRequests (fst (takeAction_spec_order env4 opWaiting))) = [True]"
  by (simp add: takeAction_def takeAction_spec_order_def doLeader_def startProcessing_def
        checkQuorum_def doSubordinate_def markProcessed_def opWaiting_def example_defs Let_def)

text \<open>
  C5, amended. On every tick \<open>takeAction\<close> runs the leader role first (when this node is the
  current leader: the balance request if the balances are nil, \<open>startProcessing\<close>
  otherwise), then the quorum check, both inside \<open>doLeader\<close>, and the subordinate
  bookkeeping last: \<open>doLeader\<close> leaves the computation requests as it found them, a tick
  that returns has marked them with \<open>doSubordinate\<close> after that, and a tick that panics in
  the leader role or in the quorum check has marked none.
\<close>

theorem takeAction_leader_quorum_subordinate:
  "takeAction env op =
     (case (if iAmCurrentLeader env op
            then (if balances op = None
                  then requestBalancesFromNode env op
                  else startProcessing env op)
            else (op, [], Return ())) of
        (op1, es1, Panic msg) \<Rightarrow> (op1, es1, Panic msg)
      | (op1, es1, Return u) \<Rightarrow>
         (case checkQuorum env op1 of
            (op2, es2, Panic msg) \<Rightarrow> (op2, es1 @ es2, Panic msg)
          | (op2, es2, Return b) \<Rightarrow> (doSubordinate op2, es1 @ es2, Return ())))
   \<and> currentStateCompRequests (fst (doLeader env op)) = currentStateCompRequests op
   \<and> (snd (snd (takeAction env op)) = Return ()
        \<longrightarrow> currentStateCompRequests (fst (takeAction env op))
            = map markProcessed (currentStateCompRequests op))
   \<and> (snd (snd (takeAction env op)) \<noteq> Return ()
        \<longrightarrow> currentStateCompRequests (fst (takeAction env op)) = currentStateCompRequests op)"
proof -
  have 1: "takeAction env op =
     (case (if iAmCurrentLeader env op
            then (if balances op = None
                  then requestBalancesFromNode env op
                  else startProcessing env op)
            else (op, [], Return ())) of
        (op1, es1, Panic msg) \<Rightarrow> (op1, es1, Panic msg)
      | (op1, es1, Return u) \<Rightarrow>
         (case checkQuorum env op1 of
            (op2, es2, Panic msg) \<Rightarrow> (op2, es1 @ es2, Panic msg)
          | (op2, es2, Return b) \<Rightarrow> (doSubordinate op2, es1 @ es2, Return ())))"
    by (simp add: takeAction_def doLeader_def split: prod.splits outcome.splits)
  obtain opL esL rL where L: "doLeader env op = (opL, esL, rL)" by (cases "doLeader env op") auto
  with doLeader_compRequests [of env op]
  have c: "currentStateCompRequests opL = currentStateCompRequests op" by simp
  have 3: "snd (snd (takeAction env op)) = Return ()
        \<longrightarrow> currentStateCompRequests (fst (takeAction env op))
            = map markProcessed (currentStateCompRequests op)"
    using L c by (cases rL) (simp_all add: takeAction_def doSubordinate_def)
  have 4: "snd (snd (takeAction env op)) \<noteq> Return ()
        \<longrightarrow> currentStateCompRequests (fst (takeAction env op)) = currentStateCompRequests op"
    using L c by (cases rL) (simp_all add: takeAction_def doSubordinate_def)
  from 1 doLeader_compRequests 3 4 show ?thesis by blast
qed

theorem takeAction_leader_quorum_subordinate_witness:
  "snd (snd (takeAction env4 opIdle)) = Return ()
   \<and> map processed (currentStateCompRequests opIdle) = [False]
   \<and> map processed (currentStateCompRequests (fst (doLeader env4 opIdle))) = [False]
   \<and> map processed (currentStateCompRequests (fst (takeAction env4 opIdle))) = [True]
   \<and> snd (snd (takeAction env4 opWaiting)) \<noteq> Return ()
   \<and> map processed (currentStateCompRequests (fst (takeAction env4 opWaiting))) = [False]"
proof -
  have h: "snd (snd (takeAction env4 opIdle)) = Return ()"
    by (simp add: takeAction_def doLeader_def startProcessing_def checkQuorum_def takeIds_def
          example_defs Let_def)
  have h': "snd (snd (takeAction env4 opWaiting)) \<noteq> Return ()"
    by (simp add: takeAction_def doLeader_def startProcessing_def checkQuorum_def takeIds_def
          opWaiting_def example_defs Let_def)
  have c: "currentStateCompRequests opIdle = [\<lparr> req = reqR1, processed = False \<rparr>]"
          "currentStateCompRequests opWaiting = [\<lparr> req = reqR1, processed = False \<rparr>]"
    by (simp_all add: opIdle_def opWaiting_def)
  have m: "markProcessed \<lparr> req = reqR1, processed = False \<rparr> = \<lparr> req = reqR1, processed = True \<rparr>"
    by (simp add: markProcessed_def reqR1_def)
  from takeAction_leader_quorum_subordinate [of env4 opIdle, THEN conjunct2] h
  have a: "map processed (currentStateCompRequests (fst (doLeader env4 opIdle))) = [False]"
          "map processed (currentStateCompRequests (fst (takeAction env4 opIdle))) = [True]"
    by (simp_all add: c m)
  from takeAction_leader_quorum_subordinate [of env4 opWaiting, THEN conjunct2] h'
  have b: "map processed (currentStateCompRequests (fst (takeAction env4 opWaiting))) = [False]"
    by (simp add: c)
  from h h' a b c show ?thesis by simp
qed

subsection \<open>setNewState\<close>

lemma rotateNotifications_sequential:
  assumes "own < length (notificationsCurrentState r)" "own < length (notificationsNextState r)"
  shows "rotateNotifications True own r =
     Some (r\<lparr>notificationsCurrentState :=
               (if reqMsg r = None then notificationsNextState r
                else (notificationsNextState r)[own := True]),
             notificationsNextState :=
               (if reqMsg r = None then replicate (length (notificationsCurrentState r)) False
                else (replicate (length (notificationsCurrentState r)) False)[own := True])\<rparr>)"
  using assms
  by (auto simp: rotateNotifications_def Let_def setAllFalse_def split: option.splits)

lemma rotateNotifications_jump:
  "rotateNotifications False own r =
     Some (r\<lparr>notificationsCurrentState := replicate (length (notificationsCurrentState r)) False,
             notificationsNextState := replicate (length (notificationsNextState r)) False\<rparr>)"
  by (auto simp: rotateNotifications_def Let_def setAllFalse_def)

lemma rotateNotifications_Some:
  assumes "own < length (notificationsCurrentState r)" "own < length (notificationsNextState r)"
  shows "\<exists>r'. rotateNotifications seq own r = Some r'"
  using rotateNotifications_sequential [OF assms] rotateNotifications_jump [of own r]
  by (cases seq) simp_all

lemma rotateAll_Some:
  assumes "\<forall>r\<in>set rs. own < length (notificationsCurrentState r) \<and> own < length (notificationsNextState r)"
  shows "rotateAll seq own rs = Some (map (\<lambda>r. the (rotateNotifications seq own r)) rs)"
  using assms
proof (induction rs)
  case Nil
  then show ?case by simp
next
  case (Cons r rs)
  then obtain r' where "rotateNotifications seq own r = Some r'"
    using rotateNotifications_Some [of own r seq] by auto
  with Cons show ?case by simp
qed

lemma replicate4: "replicate 4 x = [x, x, x, x]"
  by (simp add: numeral_eq_Suc)

text \<open>
  C7 as the claim states it fails. On a transition from state 10 to state 15 the first
  request, whose message this node has received, has this node's slot (index 0) false in
  both vectors after \<open>setNewState\<close>: the branch for a transition that is not sequential
  zeroes both vectors and marks nothing.
\<close>

theorem setNewState_jump_counterexample:
  "setNewState env4 tx15 \<lparr> StateIndex = 15 \<rparr> opTwoRequests = Return opAfterJump
   \<and> map reqMsg (requests opTwoRequests) = [Some [101], None]
   \<and> unat (peerIndex env4) = 0
   \<and> map (\<lambda>r. notificationsCurrentState r ! 0) (requests opAfterJump) = [False, False]
   \<and> map (\<lambda>r. notificationsNextState r ! 0) (requests opAfterJump) = [False, False]"
  by (simp add: setNewState_def resetLeader_def rotateNotifications_def setAllFalse_def
        opTwoRequests_def opAfterJump_def tx15_def example_defs Let_def replicate4)

text \<open>
  C7, amended. With vectors that have a slot for this node, \<open>setNewState\<close> returns, and for
  every request: if the operator had a variable state and the new state index equals its
  index plus one (the source's comparison, on \<open>uint32\<close>), the next-state vector becomes the
  current-state vector, the next-state vector is zeroed, and, when the request's message has
  been received, this node's slot is set true in both; on any other transition both vectors
  are zeroed and no slot is set.
\<close>

theorem setNewState_rotates_notifications:
  assumes "\<forall>r\<in>set (requests op).
             unat (peerIndex env) < length (notificationsCurrentState r)
             \<and> unat (peerIndex env) < length (notificationsNextState r)"
  shows "\<exists>op'. setNewState env newTx newState op = Return op'
     \<and> length (requests op') = length (requests op)
     \<and> (\<forall>i<length (requests op).
          reqId (requests op' ! i) = reqId (requests op ! i)
        \<and> reqMsg (requests op' ! i) = reqMsg (requests op ! i)
        \<and> ((\<exists>old. variableState op = Some old \<and> StateIndex newState = StateIndex old + 1) \<longrightarrow>
              notificationsCurrentState (requests op' ! i) =
                (if reqMsg (requests op ! i) = None then notificationsNextState (requests op ! i)
                 else (notificationsNextState (requests op ! i))[unat (peerIndex env) := True])
            \<and> notificationsNextState (requests op' ! i) =
                (if reqMsg (requests op ! i) = None
                 then replicate (length (notificationsCurrentState (requests op ! i))) False
                 else (replicate (length (notificationsCurrentState (requests op ! i))) False)
                        [unat (peerIndex env) := True]))
        \<and> (\<not> (\<exists>old. variableState op = Some old \<and> StateIndex newState = StateIndex old + 1) \<longrightarrow>
              notificationsCurrentState (requests op' ! i) =
                replicate (length (notificationsCurrentState (requests op ! i))) False
            \<and> notificationsNextState (requests op' ! i) =
                replicate (length (notificationsNextState (requests op ! i))) False))"
proof -
  let ?own = "unat (peerIndex env)"
  let ?seq = "case variableState op of None \<Rightarrow> False
              | Some old \<Rightarrow> StateIndex newState = StateIndex old + 1"
  let ?rs = "map (\<lambda>r. the (rotateNotifications ?seq ?own r)) (requests op)"
  let ?op' = "op\<lparr>stateTx := Some newTx, balances := None, getBalancesDeadline := now1 env,
                 variableState := Some newState, leaderStatus := None,
                 currentStateCompRequests := nextStateCompRequests op,
                 nextStateCompRequests := [], requests := ?rs\<rparr>"
  have seq: "?seq \<longleftrightarrow> (\<exists>old. variableState op = Some old \<and> StateIndex newState = StateIndex old + 1)"
    by (cases "variableState op") simp_all
  have all: "rotateAll ?seq ?own (requests op) = Some ?rs"
    using assms by (rule rotateAll_Some)
  have ret: "setNewState env newTx newState op = Return ?op'"
    using all by (simp add: setNewState_def resetLeader_def Let_def)
  have len: "length (requests ?op') = length (requests op)" by simp
  have each: "reqId (requests ?op' ! i) = reqId (requests op ! i)
        \<and> reqMsg (requests ?op' ! i) = reqMsg (requests op ! i)
        \<and> ((\<exists>old. variableState op = Some old \<and> StateIndex newState = StateIndex old + 1) \<longrightarrow>
              notificationsCurrentState (requests ?op' ! i) =
                (if reqMsg (requests op ! i) = None then notificationsNextState (requests op ! i)
                 else (notificationsNextState (requests op ! i))[?own := True])
            \<and> notificationsNextState (requests ?op' ! i) =
                (if reqMsg (requests op ! i) = None
                 then replicate (length (notificationsCurrentState (requests op ! i))) False
                 else (replicate (length (notificationsCurrentState (requests op ! i))) False)
                        [?own := True]))
        \<and> (\<not> (\<exists>old. variableState op = Some old \<and> StateIndex newState = StateIndex old + 1) \<longrightarrow>
              notificationsCurrentState (requests ?op' ! i) =
                replicate (length (notificationsCurrentState (requests op ! i))) False
            \<and> notificationsNextState (requests ?op' ! i) =
                replicate (length (notificationsNextState (requests op ! i))) False)"
    if i: "i < length (requests op)" for i
  proof -
    let ?r = "requests op ! i"
    have mem: "?r \<in> set (requests op)" using i by simp
    with assms have b: "?own < length (notificationsCurrentState ?r)"
      "?own < length (notificationsNextState ?r)" by auto
    have nth: "requests ?op' ! i = the (rotateNotifications ?seq ?own ?r)"
      using i by simp
    show ?thesis
    proof (cases ?seq)
      case True
      then have e: "\<exists>old. variableState op = Some old \<and> StateIndex newState = StateIndex old + 1"
        using seq by blast
      have "requests ?op' ! i = the (rotateNotifications True ?own ?r)"
        using nth True by simp
      then have x: "requests ?op' ! i =
           ?r\<lparr>notificationsCurrentState :=
               (if reqMsg ?r = None then notificationsNextState ?r
                else (notificationsNextState ?r)[?own := True]),
             notificationsNextState :=
               (if reqMsg ?r = None then replicate (length (notificationsCurrentState ?r)) False
                else (replicate (length (notificationsCurrentState ?r)) False)[?own := True])\<rparr>"
        by (simp only: rotateNotifications_sequential [OF b] option.sel)
      show ?thesis unfolding x using e by simp
    next
      case False
      then have e: "\<not> (\<exists>old. variableState op = Some old \<and> StateIndex newState = StateIndex old + 1)"
        using seq by blast
      have "requests ?op' ! i = the (rotateNotifications False ?own ?r)"
        using nth False by simp
      then have x: "requests ?op' ! i =
           ?r\<lparr>notificationsCurrentState := replicate (length (notificationsCurrentState ?r)) False,
              notificationsNextState := replicate (length (notificationsNextState ?r)) False\<rparr>"
        by (simp only: rotateNotifications_jump option.sel)
      show ?thesis unfolding x using e by auto
    qed
  qed
  from ret len each show ?thesis by blast
qed

theorem setNewState_rotates_notifications_witness:
  "requests opTwoRequests = [reqR1, reqR2]
   \<and> unat (peerIndex env4) < length (notificationsCurrentState reqR1)
   \<and> unat (peerIndex env4) < length (notificationsNextState reqR1)
   \<and> unat (peerIndex env4) < length (notificationsCurrentState reqR2)
   \<and> unat (peerIndex env4) < length (notificationsNextState reqR2)
   \<and> setNewState env4 tx11 \<lparr> StateIndex = 11 \<rparr> opTwoRequests = Return opAfterNext
   \<and> setNewState env4 tx15 \<lparr> StateIndex = 15 \<rparr> opTwoRequests = Return opAfterJump"
proof -
  have h: "\<forall>r\<in>set (requests opTwoRequests).
       unat (peerIndex env4) < length (notificationsCurrentState r)
       \<and> unat (peerIndex env4) < length (notificationsNextState r)"
    by (simp add: opTwoRequests_def opIdle_def env4_def reqR1_def reqR2_def)
  have a: "setNewState env4 tx11 \<lparr> StateIndex = 11 \<rparr> opTwoRequests = Return opAfterNext"
    by (simp add: setNewState_def resetLeader_def rotateNotifications_def setAllFalse_def
        opTwoRequests_def opAfterNext_def example_defs Let_def replicate4)
  have b: "setNewState env4 tx15 \<lparr> StateIndex = 15 \<rparr> opTwoRequests = Return opAfterJump"
    by (simp add: setNewState_def resetLeader_def rotateNotifications_def setAllFalse_def
        opTwoRequests_def opAfterJump_def tx15_def example_defs Let_def replicate4)
  have r: "requests opTwoRequests = [reqR1, reqR2]" by (simp add: opTwoRequests_def)
  have l: "unat (peerIndex env4) < length (notificationsCurrentState reqR1)"
          "unat (peerIndex env4) < length (notificationsNextState reqR1)"
          "unat (peerIndex env4) < length (notificationsCurrentState reqR2)"
          "unat (peerIndex env4) < length (notificationsNextState reqR2)"
    by (simp_all add: env4_def reqR1_def reqR2_def)
  from setNewState_rotates_notifications [OF h, of tx11 "\<lparr> StateIndex = 11 \<rparr>"] r l a b
  show ?thesis by simp
qed

end
